theory Spec2Isabelle
  imports Main "HOL-Library.Word"
begin

section \<open>JavaScript strings\<close>

text \<open>
  A JavaScript string is a sequence of 16-bit code units; \<open>length\<close>, \<open>lastIndexOf\<close>,
  \<open>slice\<close>, \<open>replace\<close> and a regular expression without the \<open>u\<close> flag all work on
  code units. ASCII literals of the source are written with \<open>ustr\<close>; a string that may
  be missing (\<open>undefined\<close> or \<open>null\<close>) is a \<open>jstring option\<close> with \<open>None\<close> for both.
\<close>

type_synonym jstring = "16 word list"

definition uch :: "char \<Rightarrow> 16 word" where
  "uch c = of_char c"

definition ustr :: "string \<Rightarrow> jstring" where
  "ustr s = map uch s"

text \<open>\<open>!v\<close> on a possibly missing string: \<open>undefined\<close>, \<open>null\<close> and \<open>''\<close> are falsy.\<close>

definition falsy :: "jstring option \<Rightarrow> bool" where
  "falsy v = (case v of None \<Rightarrow> True | Some s \<Rightarrow> s = [])"

text \<open>\<open>v || ''\<close> on a possibly missing string.\<close>

definition or_empty :: "jstring option \<Rightarrow> jstring" where
  "or_empty v = (case v of None \<Rightarrow> [] | Some s \<Rightarrow> s)"

text \<open>\<open>s.lastIndexOf(c)\<close>: the index of the last occurrence of \<open>c\<close>, or \<open>-1\<close>.\<close>

fun lastIndexOf :: "jstring \<Rightarrow> 16 word \<Rightarrow> int" where
  "lastIndexOf [] c = -1"
| "lastIndexOf (x # xs) c =
     (let r = lastIndexOf xs c
      in if r \<noteq> -1 then r + 1 else if x = c then 0 else -1)"

text \<open>\<open>s.slice(start)\<close>: a negative start counts from the end.\<close>

definition slice_from :: "jstring \<Rightarrow> int \<Rightarrow> jstring" where
  "slice_from s start =
     (if start < 0 then drop (nat (int (length s) + start)) s else drop (nat start) s)"

text \<open>\<open>s.includes(sub)\<close>.\<close>

fun str_includes :: "jstring \<Rightarrow> jstring \<Rightarrow> bool" where
  "str_includes [] sub = (sub = [])"
| "str_includes (c # cs) sub = (take (length sub) (c # cs) = sub \<or> str_includes cs sub)"

text \<open>\<open>/^[a-zA-Z0-9]+$/.test(s)\<close>: one or more code units, each a digit or an ASCII letter.\<close>

definition alnum :: "16 word \<Rightarrow> bool" where
  "alnum c = ((0x30 \<le> c \<and> c \<le> 0x39) \<or> (0x41 \<le> c \<and> c \<le> 0x5A) \<or> (0x61 \<le> c \<and> c \<le> 0x7A))"

definition test_alnum :: "jstring \<Rightarrow> bool" where
  "test_alnum s = (s \<noteq> [] \<and> list_all alnum s)"

text \<open>\<open>s.replace(/c/g, rep)\<close> for a single-character pattern.\<close>

definition replaceAll :: "16 word \<Rightarrow> jstring \<Rightarrow> jstring \<Rightarrow> jstring" where
  "replaceAll c rep s = concat (map (\<lambda>x. if x = c then rep else [x]) s)"

text \<open>
  \<open>s.trim()\<close> removes leading and trailing white space and line terminators of
  ECMAScript: TAB, LF, VT, FF, CR, SP, NBSP, the space separators U+1680,
  U+2000..U+200A, U+202F, U+205F, U+3000, the line and paragraph separators U+2028 and
  U+2029, and U+FEFF.
\<close>

definition is_ws :: "16 word \<Rightarrow> bool" where
  "is_ws c = ((0x9 \<le> c \<and> c \<le> 0xD) \<or> c = 0x20 \<or> c = 0xA0 \<or> c = 0x1680
     \<or> (0x2000 \<le> c \<and> c \<le> 0x200A) \<or> c = 0x2028 \<or> c = 0x2029 \<or> c = 0x202F
     \<or> c = 0x205F \<or> c = 0x3000 \<or> c = 0xFEFF)"

definition trim :: "jstring \<Rightarrow> jstring" where
  "trim s = rev (dropWhile is_ws (rev (dropWhile is_ws s)))"

section \<open>JavaScript values\<close>

text \<open>
  Exceptions and rejected promises are values: a computation that can throw returns
  \<open>error + 'a\<close>, with \<open>Inl\<close> for the exception.
\<close>

datatype error = TypeError | AbortError | NetworkFailure | SyntaxError | KVError

text \<open>
  What \<open>JSON.parse\<close> can give: the bodies of the two sources and the values of the cache
  are of this type, and so is every property the worker reads from them. A number is
  held as the text that \<open>String\<close> prints for it; an object as its members in the order
  of the text. A value that may be \<open>undefined\<close> is a \<open>jvalue option\<close>, \<open>None\<close> for
  \<open>undefined\<close>.
\<close>

datatype jvalue =
    JNull
  | JBool bool
  | JNumber jstring
  | JString jstring
  | JArray "jvalue list"
  | JObject "(jstring \<times> jvalue) list"

abbreviation Str :: "jstring \<Rightarrow> jvalue option" where
  "Str s \<equiv> Some (JString s)"

text \<open>
  Truthiness: \<open>null\<close>, \<open>false\<close>, zero (which prints as \<open>0\<close>, as minus zero does; JSON has
  no NaN) and the empty string are falsy, every array and object is truthy.
\<close>

fun truthy :: "jvalue \<Rightarrow> bool" where
  "truthy JNull = False"
| "truthy (JBool b) = b"
| "truthy (JNumber t) = (t \<noteq> ustr ''0'')"
| "truthy (JString s) = (s \<noteq> [])"
| "truthy (JArray xs) = True"
| "truthy (JObject kvs) = True"

text \<open>\<open>!v\<close> on a value that may be \<open>undefined\<close>.\<close>

definition js_not :: "jvalue option \<Rightarrow> bool" where
  "js_not v = (case v of None \<Rightarrow> True | Some x \<Rightarrow> \<not> truthy x)"

text \<open>\<open>v || ''\<close>: the value itself when it is truthy.\<close>

definition or_empty_string :: "jvalue option \<Rightarrow> jvalue" where
  "or_empty_string v =
     (case v of None \<Rightarrow> JString [] | Some x \<Rightarrow> if truthy x then x else JString [])"

text \<open>
  \<open>String(v)\<close>. An array is joined with commas, \<open>null\<close> elements printing as nothing. An
  object prints as \<open>[object Object]\<close> through the \<open>toString\<close> it inherits; when it has a
  property \<open>toString\<close> of its own, that property is a JSON value and not a function,
  \<open>valueOf\<close> gives no primitive either, and the conversion throws a \<open>TypeError\<close>.
\<close>

fun to_string :: "jvalue \<Rightarrow> error + jstring"
  and join :: "jvalue list \<Rightarrow> error + jstring" where
  "to_string JNull = Inr (ustr ''null'')"
| "to_string (JBool b) = Inr (if b then ustr ''true'' else ustr ''false'')"
| "to_string (JNumber t) = Inr t"
| "to_string (JString s) = Inr s"
| "to_string (JArray xs) = join xs"
| "to_string (JObject kvs) =
     (case map_of kvs (ustr ''toString'') of
        None \<Rightarrow> Inr (ustr ''[object Object]'')
      | Some v \<Rightarrow> Inl TypeError)"
| "join [] = Inr []"
| "join (x # xs) =
     (case (case x of JNull \<Rightarrow> Inr [] | _ \<Rightarrow> to_string x) of
        Inl e \<Rightarrow> Inl e
      | Inr a \<Rightarrow>
          if xs = [] then Inr a
          else (case join xs of Inl e \<Rightarrow> Inl e | Inr b \<Rightarrow> Inr (a @ ustr '','' @ b)))"

text \<open>
  Reading one of the properties \<open>data\<close>, \<open>name\<close> and \<open>avatarLink\<close> of a value that is
  not \<open>null\<close>: an object gives its own property, if it has one, and of two members with
  the same key the later one counts, as \<open>JSON.parse\<close> has it; no object inherits a
  property of these names, and strings, numbers, booleans and arrays have none.
\<close>

definition property :: "jvalue \<Rightarrow> string \<Rightarrow> jvalue option" where
  "property v k = (case v of JObject kvs \<Rightarrow> map_of (rev kvs) (ustr k) | _ \<Rightarrow> None)"

definition name :: "jvalue \<Rightarrow> jvalue option" where
  "name v = property v ''name''"

definition avatarLink :: "jvalue \<Rightarrow> jvalue option" where
  "avatarLink v = property v ''avatarLink''"

text \<open>The object literal \<open>{ name: n, avatarLink: a }\<close>.\<close>

definition meta :: "jstring \<Rightarrow> jvalue \<Rightarrow> jvalue" where
  "meta n a = JObject [(ustr ''name'', JString n), (ustr ''avatarLink'', a)]"

section \<open>Configuration (worker.js, lines 15-40)\<close>

text \<open>The own properties of the object literal \<open>DOMAIN_MAP\<close>.\<close>

definition DOMAIN_MAP :: "(jstring \<times> jstring) list" where
  "DOMAIN_MAP =
     [(ustr ''topnews-redirect.takhanhthient3.workers.dev'', ustr ''https://topnewsus.feji.io''),
      (ustr ''tuneblast.us'', ustr ''https://anhus.livextop.com'')]"

text \<open>
  The properties that every object literal inherits from \<open>Object.prototype\<close>. Each is a
  function, but for \<open>__proto__\<close>, which is the prototype object itself.
\<close>

definition Object_prototype :: "jstring list" where
  "Object_prototype =
     [ustr ''constructor'', ustr ''__defineGetter__'', ustr ''__defineSetter__'',
      ustr ''hasOwnProperty'', ustr ''__lookupGetter__'', ustr ''__lookupSetter__'',
      ustr ''isPrototypeOf'', ustr ''propertyIsEnumerable'', ustr ''toString'',
      ustr ''valueOf'', ustr ''__proto__'', ustr ''toLocaleString'']"

text \<open>
  \<open>DOMAIN_MAP[key]\<close>: the own property of that name, else the inherited one, else
  \<open>undefined\<close>.
\<close>

datatype looked_up = Missing | Own jstring | Inherited

definition DOMAIN_MAP_get :: "jstring \<Rightarrow> looked_up" where
  "DOMAIN_MAP_get key =
     (case map_of DOMAIN_MAP key of
        Some destination \<Rightarrow> Own destination
      | None \<Rightarrow> if key \<in> set Object_prototype then Inherited else Missing)"

definition DEFAULT_REDIRECT :: jstring where
  "DEFAULT_REDIRECT = ustr ''https://topnewsus.feji.io''"

definition API_URL :: jstring where
  "API_URL = ustr ''https://apisport.vbonews.com/News/news-detailbasic''"

definition BACKUP_URL :: jstring where
  "BACKUP_URL = ustr ''https://file.lifenews247.com/sportnews/backup''"

definition API_TIMEOUT :: nat where
  "API_TIMEOUT = 3000"

definition CACHE_TTL :: nat where
  "CACHE_TTL = 86400"

section \<open>Helper functions of the worker\<close>

text \<open>\<open>isFacebookCrawler\<close> (lines 113-117), on the lower-cased user agent.\<close>

definition isFacebookCrawler :: "jstring \<Rightarrow> bool" where
  "isFacebookCrawler userAgent =
     (str_includes userAgent (ustr ''facebook'') \<or>
      str_includes userAgent (ustr ''facebookexternalhit'') \<or>
      str_includes userAgent (ustr ''facebot''))"

text \<open>
  \<open>extractId\<close> (lines 122-129). \<open>None\<close> is \<open>null\<close>. The branches are those of the
  source, in its order: the empty slug, the slug without a hyphen, the validated tail.
\<close>

definition extractId :: "jstring \<Rightarrow> jstring option" where
  "extractId slug =
     (if slug = [] then None
      else let lastDash = lastIndexOf slug (uch CHR ''-'') in
        if lastDash = -1 then Some slug
        else let ident = slice_from slug (lastDash + 1) in
          if test_alnum ident then Some ident else None)"

text \<open>
  \<open>escapeHtml\<close> (lines 237-245): the empty string for a falsy argument, else the
  argument converted with \<open>String\<close>, which may throw, and then five global replacements,
  \<open>&\<close> first.
\<close>

definition escapeHtml :: "jvalue option \<Rightarrow> error + jstring" where
  \<open>escapeHtml str =
     (case str of
        None \<Rightarrow> Inr []
      | Some v \<Rightarrow>
          if \<not> truthy v then Inr []
          else
            (case to_string v of
               Inl e \<Rightarrow> Inl e
             | Inr s \<Rightarrow>
                 Inr (replaceAll (uch (CHR 0x27)) (ustr ''&#39;'')
                       (replaceAll (uch CHR ''"'') (ustr ''&quot;'')
                         (replaceAll (uch CHR ''>'') (ustr ''&gt;'')
                           (replaceAll (uch CHR ''<'') (ustr ''&lt;'')
                             (replaceAll (uch CHR ''&'') (ustr ''&amp;'') s)))))))\<close>

text \<open>The reply of the worker: a status, the headers in the order they are set, a body.\<close>

record response =
  status :: nat
  headers :: "(jstring \<times> jstring) list"
  body :: jstring

text \<open>
  The template literal of \<open>createMetaResponse\<close> (lines 209-222), cut at its four
  kinds of hole: the text up to the title, between the title and each \<open>content\<close>
  attribute, and after the image.
\<close>

definition html_open :: jstring where
  \<open>html_open = ustr ''<!DOCTYPE html>\<newline><html lang="vi">\<newline><head>\<newline>  <meta charset="UTF-8">\<newline>  <meta name="viewport" content="width=device-width, initial-scale=1.0">\<newline>  <title>''\<close>

definition html_og_title :: jstring where
  \<open>html_og_title = ustr ''</title>\<newline>  <meta property="og:title" content="''\<close>

definition html_og_description :: jstring where
  \<open>html_og_description = ustr ''" />\<newline>  <meta property="og:description" content="''\<close>

definition html_og_image :: jstring where
  \<open>html_og_image = ustr ''" />\<newline>  <meta property="og:image" content="''\<close>

definition html_close :: jstring where
  \<open>html_close = ustr ''" />\<newline>  <meta property="og:type" content="article" />\<newline>  <meta property="fb:app_id" content="" />\<newline></head>\<newline><body></body>\<newline></html>''\<close>

definition html :: "jstring \<Rightarrow> jstring \<Rightarrow> jstring" where
  "html safeName safeImage =
     html_open @ safeName @ html_og_title @ safeName @ html_og_description @ safeName
       @ html_og_image @ safeImage @ html_close"

text \<open>
  \<open>createMetaResponse\<close> (lines 205-232). An exception of \<open>escapeHtml\<close> leaves the
  function before any response is built.
\<close>

definition createMetaResponse :: "jvalue option \<Rightarrow> jvalue option \<Rightarrow> error + response" where
  "createMetaResponse nm link =
     (case escapeHtml nm of
        Inl e \<Rightarrow> Inl e
      | Inr safeName \<Rightarrow>
          (case escapeHtml link of
             Inl e \<Rightarrow> Inl e
           | Inr safeImage \<Rightarrow>
               Inr \<lparr>status = 200,
                    headers =
                      [(ustr ''Content-Type'', ustr ''text/html;charset=UTF-8''),
                       (ustr ''Cache-Control'', ustr ''public, max-age=86400, s-maxage=86400''),
                       (ustr ''X-Robots-Tag'', ustr ''noindex, nofollow'')],
                    body = html safeName safeImage\<rparr>))"

text \<open>\<open>Response.redirect(url, code)\<close>: the status and a \<open>Location\<close> header, no body.\<close>

definition Response_redirect :: "jstring \<Rightarrow> nat \<Rightarrow> response" where
  "Response_redirect url code =
     \<lparr>status = code, headers = [(ustr ''Location'', url)], body = []\<rparr>"

section \<open>The world of a request\<close>

text \<open>
  What \<open>await fetch(url)\<close> resolves with: \<open>response.ok\<close>, and the outcome of
  \<open>await response.json()\<close>, which rejects on a body that is not JSON.
\<close>

record fetched =
  ok :: bool
  json :: "error + jvalue"

text \<open>
  The parts of the runtime that the worker calls and that are not its own code:
  \<open>String.prototype.toLowerCase\<close>, \<open>JSON.stringify\<close>, and the network. \<open>net url\<close>
  tells after how many milliseconds a request to \<open>url\<close> settles and how: rejected
  (\<open>Inl\<close>) or resolved with a response. Every request settles: the worker bounds the
  primary fetch itself, and for the backup fetch and the cache it relies on the bound of
  the platform (section 5 of the specification).
\<close>

record runtime =
  toLowerCase :: "jstring \<Rightarrow> jstring"
  JSON_stringify :: "jvalue \<Rightarrow> jstring"
  net :: "jstring \<Rightarrow> nat \<times> (error + fetched)"

text \<open>
  The KV namespace behind \<open>env.META_CACHE\<close>: \<open>get(key, 'json')\<close> rejects, or resolves
  with the parsed value, \<open>null\<close> when there is none; \<open>put(key, value, {expirationTtl})\<close>
  rejects or resolves. The binding itself may be absent from \<open>env\<close>.
\<close>

record kv =
  kv_get :: "jstring \<Rightarrow> error + jvalue"
  kv_put :: "jstring \<Rightarrow> jstring \<Rightarrow> nat \<Rightarrow> error + unit"

record env =
  META_CACHE :: "kv option"

text \<open>
  The request, with its URL already parsed as \<open>new URL(request.url)\<close> does, and the
  \<open>User-Agent\<close> header, if any.
\<close>

record request =
  hostname :: jstring
  pathname :: jstring
  search :: jstring
  user_agent :: "jstring option"

text \<open>
  The effects of a request are recorded in the order they happen: the calls to the cache
  and the network in \<open>trace\<close>, and the state of the one timer that \<open>setTimeout\<close> arms.
\<close>

datatype effect =
    KvGet jstring
  | KvPut jstring jstring nat
  | Fetch jstring

datatype timer_state = Unset | Armed nat | Fired | Disarmed

record state =
  trace :: "effect list"
  timer :: timer_state

definition setTimeout :: "nat \<Rightarrow> state \<Rightarrow> state" where
  "setTimeout ms s = s\<lparr>timer := Armed ms\<rparr>"

definition clearTimeout :: "state \<Rightarrow> state" where
  "clearTimeout s = s\<lparr>timer := (case timer s of Armed ms \<Rightarrow> Disarmed | t \<Rightarrow> t)\<rparr>"

text \<open>
  \<open>await fetch(url, {signal})\<close>. With the signal of the controller that the armed timer
  aborts, a request that has not settled when the timer fires is rejected with an
  \<open>AbortError\<close>; otherwise, and without a signal, the request settles as the network says.
\<close>

definition js_fetch :: "runtime \<Rightarrow> jstring \<Rightarrow> bool \<Rightarrow> state \<Rightarrow> (error + fetched) \<times> state" where
  "js_fetch R url signal s =
     (let (ms, outcome) = net R url;
          s' = s\<lparr>trace := trace s @ [Fetch url]\<rparr>
      in case timer s of
           Armed t \<Rightarrow>
             if signal \<and> \<not> ms < t then (Inl AbortError, s'\<lparr>timer := Fired\<rparr>)
             else (outcome, s')
         | _ \<Rightarrow> (outcome, s'))"

section \<open>Metadata resolution\<close>

text \<open>\<open>json.data\<close>: reading a property of \<open>null\<close> throws a \<open>TypeError\<close>.\<close>

definition get_data :: "jvalue \<Rightarrow> error + jvalue option" where
  "get_data j = (case j of JNull \<Rightarrow> Inl TypeError | _ \<Rightarrow> Inr (property j ''data''))"

text \<open>
  \<open>obj?.name?.trim()\<close>. Each \<open>?.\<close> stops at \<open>undefined\<close> and \<open>null\<close>, and the whole
  expression is then \<open>undefined\<close>. A name that is a string is trimmed; a name of another
  type has no method \<open>trim\<close>, and calling it throws a \<open>TypeError\<close>.
\<close>

definition trimmed_name :: "jvalue option \<Rightarrow> error + jstring option" where
  "trimmed_name obj =
     (case obj of
        None \<Rightarrow> Inr None
      | Some v \<Rightarrow>
          (case v of
             JNull \<Rightarrow> Inr None
           | _ \<Rightarrow>
               (case name v of
                  None \<Rightarrow> Inr None
                | Some n \<Rightarrow>
                    (case n of
                       JNull \<Rightarrow> Inr None
                     | JString s \<Rightarrow> Inr (Some (trim s))
                     | _ \<Rightarrow> Inl TypeError))))"

text \<open>
  The \<open>if\<close> of lines 155-163, and of lines 181-189: when the trimmed name is truthy, the
  object \<open>{ name: obj.name.trim(), avatarLink: obj.avatarLink || '' }\<close> is returned
  (\<open>Some\<close>), else control falls out of the \<open>try\<close> (\<open>None\<close>).
\<close>

definition accept :: "jvalue option \<Rightarrow> error + jvalue option" where
  "accept obj =
     (case trimmed_name obj of
        Inl e \<Rightarrow> Inl e
      | Inr t \<Rightarrow>
          if falsy t then Inr None
          else
            (case obj of
               None \<Rightarrow> Inr None
             | Some v \<Rightarrow> Inr (Some (meta (or_empty t) (or_empty_string (avatarLink v))))))"

text \<open>
  The first \<open>try\<close> block of \<open>fetchMetaData\<close> (lines 137-166). \<open>Inl e\<close> is a jump to the
  \<open>catch\<close>; \<open>Inr (Some m)\<close> is \<open>return m\<close>; \<open>Inr None\<close> is reaching the end of the block.
  \<open>clearTimeout\<close> stands after the \<open>await\<close>, as on line 149.
\<close>

definition primary_try :: "runtime \<Rightarrow> jstring \<Rightarrow> state \<Rightarrow> (error + jvalue option) \<times> state" where
  "primary_try R ident s0 =
     (let s1 = setTimeout API_TIMEOUT s0;
          apiUrl = API_URL @ ustr ''?id='' @ ident;
          (r, s2) = js_fetch R apiUrl True s1
      in case r of
           Inl e \<Rightarrow> (Inl e, s2)
         | Inr rsp \<Rightarrow>
             let s3 = clearTimeout s2 in
             if ok rsp then
               (case json rsp of
                  Inl e \<Rightarrow> (Inl e, s3)
                | Inr j \<Rightarrow>
                    (case get_data j of
                       Inl e \<Rightarrow> (Inl e, s3)
                     | Inr d \<Rightarrow> (accept d, s3)))
             else (Inr None, s3))"

text \<open>The first \<open>try\<close> with its \<open>catch\<close> (lines 136-169): the exception is logged and dropped.\<close>

definition primary_step :: "runtime \<Rightarrow> jstring \<Rightarrow> state \<Rightarrow> jvalue option \<times> state" where
  "primary_step R ident s0 =
     (case primary_try R ident s0 of
        (Inl e, s) \<Rightarrow> (None, s)
      | (Inr r, s) \<Rightarrow> (r, s))"

text \<open>The second \<open>try\<close> block (lines 173-192), a fetch without signal or timer.\<close>

definition backup_try :: "runtime \<Rightarrow> jstring \<Rightarrow> state \<Rightarrow> (error + jvalue option) \<times> state" where
  "backup_try R ident s0 =
     (let backupUrl = BACKUP_URL @ ustr ''/'' @ ident @ ustr ''.json'';
          (r, s1) = js_fetch R backupUrl False s0
      in case r of
           Inl e \<Rightarrow> (Inl e, s1)
         | Inr backupResponse \<Rightarrow>
             if ok backupResponse then
               (case json backupResponse of
                  Inl e \<Rightarrow> (Inl e, s1)
                | Inr backup \<Rightarrow> (accept (Some backup), s1))
             else (Inr None, s1))"

definition backup_step :: "runtime \<Rightarrow> jstring \<Rightarrow> state \<Rightarrow> jvalue option \<times> state" where
  "backup_step R ident s0 =
     (case backup_try R ident s0 of
        (Inl e, s) \<Rightarrow> (None, s)
      | (Inr r, s) \<Rightarrow> (r, s))"

text \<open>
  \<open>fetchMetaData\<close> (lines 134-200). The result type lets the function throw, so that
  its never doing so is a theorem and not a convention.
\<close>

definition fetchMetaData :: "runtime \<Rightarrow> jstring \<Rightarrow> state \<Rightarrow> (error + jvalue) \<times> state" where
  "fetchMetaData R ident s0 =
     (case primary_step R ident s0 of
        (Some m, s1) \<Rightarrow> (Inr m, s1)
      | (None, s1) \<Rightarrow>
          (case backup_step R ident s1 of
             (Some m, s2) \<Rightarrow> (Inr m, s2)
           | (None, s2) \<Rightarrow> (Inr (meta [] (JString [])), s2)))"

section \<open>The request handler\<close>

text \<open>
  The two placeholder titles of the crawler path (lines 63 and 71), Vietnamese for
  "home page" and "not found"; their letters beyond ASCII are U+1EE7, U+00F4, U+00EC
  and U+1EA5.
\<close>

definition HOME_TITLE :: jstring where
  "HOME_TITLE = ustr ''Trang ch'' @ [0x1EE7]"

definition NOT_FOUND_TITLE :: jstring where
  "NOT_FOUND_TITLE =
     ustr ''Kh'' @ [0xF4] @ ustr ''ng t'' @ [0xEC] @ ustr ''m th'' @ [0x1EA5] @ ustr ''y''"

definition cache_key :: "jstring \<Rightarrow> jstring" where
  "cache_key ident = ustr ''meta:'' @ ident"

text \<open>
  The \<open>try\<close> block of lines 78-82, inside the guard of line 77. \<open>Inr (Some r)\<close> is the
  \<open>return\<close> of line 81; \<open>Inl e\<close> is a jump to the \<open>catch\<close> of line 83, from a rejected
  \<open>get\<close> or from an exception of \<open>createMetaResponse\<close>, which is called inside the block.
\<close>

definition cache_try :: "kv \<Rightarrow> jstring \<Rightarrow> state \<Rightarrow> (error + response option) \<times> state" where
  "cache_try c ident s =
     (let s1 = s\<lparr>trace := trace s @ [KvGet (cache_key ident)]\<rparr>
      in (case kv_get c (cache_key ident) of
            Inl e \<Rightarrow> (Inl e, s1)
          | Inr cached \<Rightarrow>
              if truthy cached then
                (case createMetaResponse (name cached) (avatarLink cached) of
                   Inl e \<Rightarrow> (Inl e, s1)
                 | Inr r \<Rightarrow> (Inr (Some r), s1))
              else (Inr None, s1)))"

text \<open>
  The cache lookup of lines 77-86: after the \<open>catch\<close>, control goes on as after a miss.
\<close>

definition cache_read :: "env \<Rightarrow> jstring \<Rightarrow> state \<Rightarrow> response option \<times> state" where
  "cache_read e ident s =
     (case META_CACHE e of
        None \<Rightarrow> (None, s)
      | Some c \<Rightarrow>
          (case cache_try c ident s of
             (Inl err, s1) \<Rightarrow> (None, s1)
           | (Inr r, s1) \<Rightarrow> (r, s1)))"

text \<open>The write-back of lines 92-102; a rejected \<open>put\<close> is caught on line 99.\<close>

definition cache_write :: "runtime \<Rightarrow> env \<Rightarrow> jstring \<Rightarrow> jvalue \<Rightarrow> state \<Rightarrow> state" where
  "cache_write R e ident metaData s =
     (case META_CACHE e of
        None \<Rightarrow> s
      | Some c \<Rightarrow>
          if js_not (name metaData) then s
          else
            let v = JSON_stringify R metaData;
                s1 = s\<lparr>trace := trace s @ [KvPut (cache_key ident) v CACHE_TTL]\<rparr>
            in (case kv_put c (cache_key ident) v CACHE_TTL of
                  Inl err \<Rightarrow> s1
                | Inr u \<Rightarrow> s1))"

text \<open>
  \<open>fetch(request, env)\<close> (lines 44-105). On the fast path \<open>targetDomain\<close> is the value
  looked up, or the default when that value is \<open>undefined\<close> or empty; \<open>None\<close> stands
  for a value that is not a string, a property inherited from \<open>Object.prototype\<close>. The
  template literal of line 53 then prints a function or an object in front of the path,
  a text such as \<open>function Object() { [native code] }/foo\<close>; this is not an absolute
  URL, and \<open>Response.redirect\<close> throws a \<open>TypeError\<close> on a URL that does not parse. The calls of
  \<open>createMetaResponse\<close> on lines 63, 71 and 104 stand outside every \<open>try\<close>.
  \<open>console.log\<close> is left out: it returns nothing and decides nothing.
\<close>

definition fetch_handler :: "runtime \<Rightarrow> env \<Rightarrow> request \<Rightarrow> state \<Rightarrow> (error + response) \<times> state" where
  "fetch_handler R e request s0 =
     (let userAgent = toLowerCase R (or_empty (user_agent request)) in
      if \<not> isFacebookCrawler userAgent then
        let targetDomain =
              (case DOMAIN_MAP_get (hostname request) of
                 Missing \<Rightarrow> Some DEFAULT_REDIRECT
               | Own destination \<Rightarrow>
                   if destination = [] then Some DEFAULT_REDIRECT else Some destination
               | Inherited \<Rightarrow> None)
        in (case targetDomain of
              Some destination \<Rightarrow>
                (Inr (Response_redirect (destination @ pathname request @ search request) 301), s0)
            | None \<Rightarrow> (Inl TypeError, s0))
      else if pathname request = ustr ''/'' \<or> pathname request = [] then
        (createMetaResponse (Str HOME_TITLE) (Str []), s0)
      else
        let slug = slice_from (pathname request) 1;
            ident = extractId slug
        in if falsy ident then
             (createMetaResponse (Str NOT_FOUND_TITLE) (Str []), s0)
           else
             (case cache_read e (or_empty ident) s0 of
                (Some r, s1) \<Rightarrow> (Inr r, s1)
              | (None, s1) \<Rightarrow>
                  (case fetchMetaData R (or_empty ident) s1 of
                     (Inl err, s2) \<Rightarrow> (Inl err, s2)
                   | (Inr metaData, s2) \<Rightarrow>
                       let s3 = cache_write R e (or_empty ident) metaData s2
                       in (createMetaResponse (name metaData) (avatarLink metaData), s3))))"

section \<open>Notions of the specification\<close>

text \<open>The effects of one kind within a trace.\<close>

fun is_fetch :: "effect \<Rightarrow> bool" where
  "is_fetch (Fetch url) = True"
| "is_fetch other = False"


fun is_write :: "effect \<Rightarrow> bool" where
  "is_write (KvPut k v ttl) = True"
| "is_write other = False"

definition fetches :: "state \<Rightarrow> effect list" where
  "fetches s = filter is_fetch (trace s)"


definition cache_writes :: "state \<Rightarrow> effect list" where
  "cache_writes s = filter is_write (trace s)"

text \<open>A request is on the crawler path when its lower-cased user agent classifies so.\<close>

definition crawler :: "runtime \<Rightarrow> request \<Rightarrow> bool" where
  "crawler R request = isFacebookCrawler (toLowerCase R (or_empty (user_agent request)))"

text \<open>
  The path is not the root and the extractor gives the identifier \<open>x\<close> for it.
\<close>

definition identifies :: "request \<Rightarrow> jstring \<Rightarrow> bool" where
  "identifies request x =
     (pathname request \<noteq> ustr ''/'' \<and> pathname request \<noteq> []
      \<and> extractId (slice_from (pathname request) 1) = Some x)"

text \<open>
  A value that \<open>escapeHtml\<close> can turn into text: \<open>undefined\<close>, and every value but an
  object with a property \<open>toString\<close> of its own, or an array that holds one.
\<close>

definition renderable :: "jvalue option \<Rightarrow> bool" where
  "renderable v = (case escapeHtml v of Inl e \<Rightarrow> False | Inr t \<Rightarrow> True)"

text \<open>
  The cache was missed: there is a cache, and reading the key fails, finds nothing, or
  finds a value that cannot be rendered.
\<close>

definition cache_missed :: "env \<Rightarrow> jstring \<Rightarrow> bool" where
  "cache_missed e k =
     (case META_CACHE e of
        None \<Rightarrow> False
      | Some c \<Rightarrow>
          (case kv_get c k of
             Inl err \<Rightarrow> True
           | Inr cached \<Rightarrow>
               \<not> (truthy cached \<and> renderable (name cached) \<and> renderable (avatarLink cached))))"

text \<open>The same environment with another behaviour of \<open>put\<close>.\<close>

definition with_put :: "(jstring \<Rightarrow> jstring \<Rightarrow> nat \<Rightarrow> error + unit) \<Rightarrow> env \<Rightarrow> env" where
  "with_put p e = e\<lparr>META_CACHE := map_option (\<lambda>c. c\<lparr>kv_put := p\<rparr>) (META_CACHE e)\<rparr>"

text \<open>
  The resolution as the specification words it (section 4.3, steps 2 to 4). The
  validation rule: what a source gave has a name that is a string and is not empty after
  trimming; the record is then the trimmed name with the avatar link, or with the empty
  string when there is no avatar link.
\<close>

definition spec_record :: "jvalue option \<Rightarrow> jvalue option" where
  "spec_record obj =
     (case obj of
        None \<Rightarrow> None
      | Some v \<Rightarrow>
          (case name v of
             Some (JString n) \<Rightarrow>
               if trim n = [] then None
               else Some (meta (trim n)
                      (case avatarLink v of
                         None \<Rightarrow> JString []
                       | Some a \<Rightarrow> if truthy a then a else JString []))
           | _ \<Rightarrow> None))"

text \<open>
  What the primary source says: the \<open>data\<close> of its body, when the request completes
  within the timeout with HTTP success and a body that parses.
\<close>

definition spec_primary :: "runtime \<Rightarrow> jstring \<Rightarrow> jvalue option" where
  "spec_primary R ident =
     (case net R (API_URL @ ustr ''?id='' @ ident) of
        (ms, Inl err) \<Rightarrow> None
      | (ms, Inr rsp) \<Rightarrow>
          if ms < 3000 \<and> ok rsp then
            (case json rsp of Inr j \<Rightarrow> property j ''data'' | Inl err \<Rightarrow> None)
          else None)"

text \<open>What the backup source says: the body itself, on HTTP success; no timeout.\<close>

definition spec_backup :: "runtime \<Rightarrow> jstring \<Rightarrow> jvalue option" where
  "spec_backup R ident =
     (case net R (BACKUP_URL @ ustr ''/'' @ ident @ ustr ''.json'') of
        (ms, Inl err) \<Rightarrow> None
      | (ms, Inr rsp) \<Rightarrow>
          if ok rsp then (case json rsp of Inr j \<Rightarrow> Some j | Inl err \<Rightarrow> None)
          else None)"

definition spec_resolve :: "runtime \<Rightarrow> jstring \<Rightarrow> jvalue" where
  "spec_resolve R ident =
     (case spec_record (spec_primary R ident) of
        Some m \<Rightarrow> m
      | None \<Rightarrow>
          (case spec_record (spec_backup R ident) of
             Some m \<Rightarrow> m
           | None \<Rightarrow> meta [] (JString [])))"

text \<open>
  The identifier as the specification words it (section 4.2): the text after the last
  hyphen, or the whole slug when there is no hyphen, and in both cases only when it
  matches \<open>^[a-zA-Z0-9]+$\<close>.
\<close>

definition after_last :: "16 word \<Rightarrow> jstring \<Rightarrow> jstring" where
  "after_last c s = rev (takeWhile (\<lambda>x. x \<noteq> c) (rev s))"

definition spec_extractId :: "jstring \<Rightarrow> jstring option" where
  "spec_extractId slug =
     (if slug = [] then None
      else if uch CHR ''-'' \<in> set slug then
        (if test_alnum (after_last (uch CHR ''-'') slug)
         then Some (after_last (uch CHR ''-'') slug) else None)
      else if test_alnum slug then Some slug else None)"

text \<open>
  Decoding the five entities, left to right. An ampersand that starts none of them is
  kept as it is.
\<close>

function unescapeHtml :: "jstring \<Rightarrow> jstring" where
  "unescapeHtml [] = []"
| "unescapeHtml (c # cs) =
     (if c = uch CHR ''&'' then
        (if take 4 cs = ustr ''amp;'' then uch CHR ''&'' # unescapeHtml (drop 4 cs)
         else if take 3 cs = ustr ''lt;'' then uch CHR ''<'' # unescapeHtml (drop 3 cs)
         else if take 3 cs = ustr ''gt;'' then uch CHR ''>'' # unescapeHtml (drop 3 cs)
         else if take 5 cs = ustr ''quot;'' then uch (CHR 0x22) # unescapeHtml (drop 5 cs)
         else if take 4 cs = ustr ''#39;'' then uch (CHR 0x27) # unescapeHtml (drop 4 cs)
         else c # unescapeHtml cs)
      else c # unescapeHtml cs)"
  by pat_completeness auto
termination
  by (relation "measure length") auto

text \<open>
  Reading the document back: the title is the text between the opening of the template
  and the next \<open><\<close>; each \<open>content\<close> attribute runs to the next double quote. The
  result holds the title, \<open>og:title\<close>, \<open>og:description\<close> and \<open>og:image\<close> as they stand in
  the document, still escaped; \<open>None\<close> when the text is not an instance of the template.
\<close>

definition strip_prefix :: "jstring \<Rightarrow> jstring \<Rightarrow> jstring option" where
  "strip_prefix p s = (if take (length p) s = p then Some (drop (length p) s) else None)"

definition text_until :: "char \<Rightarrow> jstring \<Rightarrow> jstring" where
  "text_until c s = takeWhile (\<lambda>x. x \<noteq> uch c) s"

definition text_from :: "char \<Rightarrow> jstring \<Rightarrow> jstring" where
  "text_from c s = dropWhile (\<lambda>x. x \<noteq> uch c) s"

definition embedded_values :: "jstring \<Rightarrow> (jstring \<times> jstring \<times> jstring \<times> jstring) option" where
  "embedded_values doc =
     (case strip_prefix html_open doc of
        None \<Rightarrow> None
      | Some r0 \<Rightarrow>
     (case strip_prefix html_og_title (text_from CHR ''<'' r0) of
        None \<Rightarrow> None
      | Some r1 \<Rightarrow>
     (case strip_prefix html_og_description (text_from (CHR 0x22) r1) of
        None \<Rightarrow> None
      | Some r2 \<Rightarrow>
     (case strip_prefix html_og_image (text_from (CHR 0x22) r2) of
        None \<Rightarrow> None
      | Some r3 \<Rightarrow>
          Some (text_until CHR ''<'' r0, text_until (CHR 0x22) r1, text_until (CHR 0x22) r2,
                text_until (CHR 0x22) r3)))))"

text \<open>The escape of one code unit: what the five passes together make of it.\<close>

definition escape_char :: "16 word \<Rightarrow> jstring" where
  "escape_char c =
     (if c = uch CHR ''&'' then ustr ''&amp;''
      else if c = uch CHR ''<'' then ustr ''&lt;''
      else if c = uch CHR ''>'' then ustr ''&gt;''
      else if c = uch (CHR 0x22) then ustr ''&quot;''
      else if c = uch (CHR 0x27) then ustr ''&#39;''
      else [c])"

text \<open>The escaped form of a text, in one pass.\<close>

definition escaped :: "jstring \<Rightarrow> jstring" where
  "escaped s = concat (map escape_char s)"

section \<open>Example requests\<close>

text \<open>
  Concrete runtimes, caches and requests on which the theorems below are run. The
  lower-casing and the serialiser given here cover the ASCII strings of the examples.
\<close>

definition ascii_lower :: "jstring \<Rightarrow> jstring" where
  "ascii_lower s = map (\<lambda>c. if 0x41 \<le> c \<and> c \<le> 0x5A then c + 0x20 else c) s"

definition string_of :: "jvalue option \<Rightarrow> jstring" where
  "string_of v = (case v of Some (JString s) \<Rightarrow> s | _ \<Rightarrow> [])"

definition plain_stringify :: "jvalue \<Rightarrow> jstring" where
  \<open>plain_stringify m =
     ustr ''{"name":"'' @ string_of (name m) @ ustr ''","avatarLink":"''
       @ string_of (avatarLink m) @ ustr ''"}''\<close>

text \<open>
  A network where the primary source answers the identifier \<open>abc123\<close> after 120 ms with
  \<open>{"data": {"name": " Win ", "avatarLink": "http://x/img.png"}}\<close> and every other
  request fails after 40 ms.
\<close>

definition demo_net :: "jstring \<Rightarrow> nat \<times> (error + fetched)" where
  "demo_net url =
     (if url = ustr ''https://apisport.vbonews.com/News/news-detailbasic?id=abc123'' then
        (120, Inr \<lparr>ok = True,
                   json = Inr (JObject
                     [(ustr ''data'', meta (ustr '' Win '') (JString (ustr ''http://x/img.png'')))])\<rparr>)
      else (40, Inl NetworkFailure))"

definition demo_runtime :: runtime where
  "demo_runtime = \<lparr>toLowerCase = ascii_lower, JSON_stringify = plain_stringify, net = demo_net\<rparr>"

text \<open>
  A network where the primary source is too slow for the timeout (it would answer after
  5000 ms) and the backup source answers \<open>{"name": "Bar"}\<close> after 80 ms.
\<close>

definition slow_net :: "jstring \<Rightarrow> nat \<times> (error + fetched)" where
  "slow_net url =
     (if url = ustr ''https://apisport.vbonews.com/News/news-detailbasic?id=abc123'' then
        (5000, Inr \<lparr>ok = True,
                    json = Inr (JObject
                      [(ustr ''data'', meta (ustr ''Win'') (JString (ustr ''http://x/img.png'')))])\<rparr>)
      else if url = ustr ''https://file.lifenews247.com/sportnews/backup/abc123.json'' then
        (80, Inr \<lparr>ok = True, json = Inr (JObject [(ustr ''name'', JString (ustr ''Bar''))])\<rparr>)
      else (40, Inl NetworkFailure))"

definition slow_runtime :: runtime where
  "slow_runtime = \<lparr>toLowerCase = ascii_lower, JSON_stringify = plain_stringify, net = slow_net\<rparr>"

text \<open>A network where every request fails after 40 ms.\<close>

definition offline_runtime :: runtime where
  "offline_runtime =
     \<lparr>toLowerCase = ascii_lower, JSON_stringify = plain_stringify,
      net = (\<lambda>url. (40, Inl NetworkFailure))\<rparr>"

text \<open>
  A network where the primary source answers the identifier \<open>abc123\<close> after 120 ms with
  \<open>{"data": {"name": "Win", "avatarLink": {"toString": 1}}}\<close>: HTTP success, a body
  that parses, a name that is a string, and an avatar link that is an object.
\<close>

definition odd_link :: jvalue where
  "odd_link = JObject [(ustr ''toString'', JNumber (ustr ''1''))]"

definition odd_net :: "jstring \<Rightarrow> nat \<times> (error + fetched)" where
  "odd_net url =
     (if url = ustr ''https://apisport.vbonews.com/News/news-detailbasic?id=abc123'' then
        (120, Inr \<lparr>ok = True,
                   json = Inr (JObject [(ustr ''data'', meta (ustr ''Win'') odd_link)])\<rparr>)
      else (40, Inl NetworkFailure))"

definition odd_runtime :: runtime where
  "odd_runtime = \<lparr>toLowerCase = ascii_lower, JSON_stringify = plain_stringify, net = odd_net\<rparr>"

definition empty_cache :: env where
  "empty_cache = \<lparr>META_CACHE = Some \<lparr>kv_get = (\<lambda>k. Inr JNull), kv_put = (\<lambda>k v ttl. Inr ())\<rparr>\<rparr>"

definition warm_kv :: kv where
  "warm_kv =
     \<lparr>kv_get = (\<lambda>k. if k = ustr ''meta:abc123''
                     then Inr (meta (ustr ''Win'') (JString (ustr ''http://x/img.png'')))
                     else Inr JNull),
      kv_put = (\<lambda>k v ttl. Inr ())\<rparr>"

definition warm_cache :: env where
  "warm_cache = \<lparr>META_CACHE = Some warm_kv\<rparr>"

definition no_cache :: env where
  "no_cache = \<lparr>META_CACHE = None\<rparr>"

definition facebook :: "jstring option" where
  "facebook = Some (ustr ''facebookexternalhit/1.1'')"

definition article_request :: request where
  "article_request =
     \<lparr>hostname = ustr ''tuneblast.us'', pathname = ustr ''/breaking-news-abc123'', search = [],
      user_agent = facebook\<rparr>"

definition home_request :: request where
  "home_request =
     \<lparr>hostname = ustr ''tuneblast.us'', pathname = ustr ''/'', search = [], user_agent = facebook\<rparr>"

definition browser_request :: request where
  "browser_request =
     \<lparr>hostname = ustr ''tuneblast.us'', pathname = ustr ''/foo'', search = ustr ''?x=1'',
      user_agent = Some (ustr ''Mozilla/5.0'')\<rparr>"

text \<open>A browser asking the host \<open>constructor\<close> for \<open>/foo\<close>.\<close>

definition constructor_request :: request where
  "constructor_request =
     \<lparr>hostname = ustr ''constructor'', pathname = ustr ''/foo'', search = [],
      user_agent = Some (ustr ''Mozilla/5.0'')\<rparr>"

definition start :: state where
  "start = \<lparr>trace = [], timer = Unset\<rparr>"

section \<open>Properties of the identifier extraction\<close>

lemma extractId_nonempty: "extractId slug = Some x \<Longrightarrow> x \<noteq> []"
  by (auto simp: extractId_def Let_def test_alnum_def split: if_splits)

lemma lastIndexOf_range: "- 1 \<le> lastIndexOf s c"
  by (induction s) (auto simp: Let_def)

lemma lastIndexOf_absent: "lastIndexOf s c = - 1 \<longleftrightarrow> c \<notin> set s"
proof (induction s)
  case Nil
  show ?case by simp
next
  case (Cons x xs)
  have "- 1 \<le> lastIndexOf xs c" by (rule lastIndexOf_range)
  with Cons show ?case by (auto simp: Let_def)
qed

lemma takeWhile_stop: "c \<notin> set ys \<Longrightarrow> takeWhile (\<lambda>y. y \<noteq> c) (ys @ [c]) = ys"
  by (induction ys) auto

lemma slice_after_last:
  "c \<in> set s \<Longrightarrow> slice_from s (lastIndexOf s c + 1) = after_last c s"
proof (induction s)
  case Nil
  then show ?case by simp
next
  case (Cons x xs)
  have r: "- 1 \<le> lastIndexOf xs c" by (rule lastIndexOf_range)
  show ?case
  proof (cases "c \<in> set xs")
    case True
    then have n: "lastIndexOf xs c \<noteq> - 1" by (simp add: lastIndexOf_absent)
    with r have p: "0 \<le> lastIndexOf xs c" by linarith
    from True have t: "takeWhile (\<lambda>y. y \<noteq> c) (rev xs @ [x]) = takeWhile (\<lambda>y. y \<noteq> c) (rev xs)"
      by (intro takeWhile_append1 [of c]) simp_all
    have "nat (lastIndexOf xs c + 1 + 1) = Suc (nat (lastIndexOf xs c + 1))"
      using p by linarith
    with Cons.IH [OF True] n p t show ?thesis
      by (simp add: slice_from_def after_last_def Let_def)
  next
    case False
    with Cons.prems have x: "x = c" by simp
    from False have l: "lastIndexOf xs c = - 1" by (simp add: lastIndexOf_absent)
    from False have "takeWhile (\<lambda>y. y \<noteq> c) (rev xs @ [c]) = rev xs"
      by (intro takeWhile_stop) simp
    with x l show ?thesis
      by (simp add: slice_from_def after_last_def Let_def)
  qed
qed

text \<open>
  On a slug with a hyphen the extractor is the one of the specification; without a
  hyphen it returns the slug whatever its characters.
\<close>

lemma extractId_hyphen:
  "uch CHR ''-'' \<in> set slug \<Longrightarrow> extractId slug = spec_extractId slug"
  using lastIndexOf_absent [of slug "uch CHR ''-''"]
  by (auto simp: extractId_def spec_extractId_def Let_def slice_after_last)

lemma extractId_no_hyphen:
  "slug \<noteq> [] \<Longrightarrow> uch CHR ''-'' \<notin> set slug \<Longrightarrow> extractId slug = Some slug"
  by (simp add: extractId_def lastIndexOf_absent)

lemma extractId_agrees:
  "slug = [] \<or> uch CHR ''-'' \<in> set slug \<or> test_alnum slug \<Longrightarrow>
   extractId slug = spec_extractId slug"
  using extractId_hyphen [of slug] extractId_no_hyphen [of slug]
  by (auto simp: spec_extractId_def extractId_def)

text \<open>
  C1. The claim: \<open>extractId\<close> returns \<open>null\<close> on the empty slug, the validated text after
  the last hyphen on a slug with a hyphen, and on a slug without a hyphen the slug when
  it matches \<open>^[a-zA-Z0-9]+$\<close> and \<open>null\<close> otherwise; so every result is alphanumeric.
  The slug \<open>favicon.ico\<close> has no hyphen and holds a dot. The extractor takes the early
  return of line 125 and answers the slug itself, without the test that line 128 applies
  on the other path; the extractor of the claim answers \<open>null\<close>.
\<close>

theorem extractId_no_hyphen_unvalidated:
  "extractId (ustr ''favicon.ico'') = Some (ustr ''favicon.ico'')
   \<and> spec_extractId (ustr ''favicon.ico'') = None
   \<and> lastIndexOf (ustr ''favicon.ico'') (uch CHR ''-'') = - 1
   \<and> \<not> test_alnum (ustr ''favicon.ico'')"
  by (simp add: extractId_def spec_extractId_def ustr_def uch_def test_alnum_def alnum_def)

section \<open>Properties of the escaping\<close>

lemma replaceAll_concat:
  "replaceAll c rep (concat (map f s)) = concat (map (\<lambda>x. replaceAll c rep (f x)) s)"
  by (induction s) (simp_all add: replaceAll_def)

lemma replaceAll_chars: "replaceAll c rep s = concat (map (\<lambda>x. if x = c then rep else [x]) s)"
  by (simp add: replaceAll_def)

text \<open>
  The order of the passes matters here: the four later passes leave \<open>&amp;\<close> alone, and
  the first pass has already gone by when they bring in their own ampersands.
\<close>

lemma escape_char_passes:
  "replaceAll (uch (CHR 0x27)) (ustr ''&#39;'')
     (replaceAll (uch (CHR 0x22)) (ustr ''&quot;'')
       (replaceAll (uch CHR ''>'') (ustr ''&gt;'')
         (replaceAll (uch CHR ''<'') (ustr ''&lt;'')
           (if x = uch CHR ''&'' then ustr ''&amp;'' else [x])))) = escape_char x"
  by (simp add: escape_char_def replaceAll_def ustr_def uch_def)

lemma five_passes:
  "replaceAll (uch (CHR 0x27)) (ustr ''&#39;'')
     (replaceAll (uch (CHR 0x22)) (ustr ''&quot;'')
       (replaceAll (uch CHR ''>'') (ustr ''&gt;'')
         (replaceAll (uch CHR ''<'') (ustr ''&lt;'')
           (replaceAll (uch CHR ''&'') (ustr ''&amp;'') s)))) = escaped s"
proof -
  have "replaceAll (uch CHR ''&'') (ustr ''&amp;'') s =
      concat (map (\<lambda>x. if x = uch CHR ''&'' then ustr ''&amp;'' else [x]) s)"
    by (rule replaceAll_chars)
  then show ?thesis
    by (simp only: replaceAll_concat escape_char_passes escaped_def)
qed

text \<open>On a string \<open>escapeHtml\<close> does not throw, and gives the escaped text.\<close>

lemma escapeHtml_Str: "escapeHtml (Str s) = Inr (escaped s)"
proof (cases "s = []")
  case True
  then show ?thesis by (simp add: escapeHtml_def escaped_def)
next
  case False
  then show ?thesis by (simp add: escapeHtml_def five_passes)
qed

lemma escapeHtml_undefined: "escapeHtml None = Inr []"
  by (simp add: escapeHtml_def)

lemma escaped_empty: "escaped [] = []"
  by (simp add: escaped_def)

lemma unescape_escape_char: "unescapeHtml (escape_char c @ rest) = c # unescapeHtml rest"
  by (simp add: escape_char_def ustr_def uch_def)

lemma unescape_escaped: "unescapeHtml (escaped s) = s"
  unfolding escaped_def
  by (induction s) (simp_all add: unescape_escape_char)

lemma escape_char_clean:
  "uch CHR ''<'' \<notin> set (escape_char c)" "uch (CHR 0x22) \<notin> set (escape_char c)"
  by (simp_all add: escape_char_def ustr_def uch_def)

lemma escaped_clean:
  "uch CHR ''<'' \<notin> set (escaped s)" "uch (CHR 0x22) \<notin> set (escaped s)"
  unfolding escaped_def using escape_char_clean by auto

lemma strip_prefix_append: "strip_prefix p (p @ r) = Some r"
  by (simp add: strip_prefix_def)

lemma text_until_stop: "uch c \<notin> set v \<Longrightarrow> text_until c (v @ uch c # r) = v"
  unfolding text_until_def by (induction v) auto

lemma text_from_stop: "uch c \<notin> set v \<Longrightarrow> text_from c (v @ uch c # r) = uch c # r"
  unfolding text_from_def by (induction v) auto

lemma segment_heads:
  "\<exists>t. html_og_title = uch CHR ''<'' # t"
  "\<exists>t. html_og_description = uch (CHR 0x22) # t"
  "\<exists>t. html_og_image = uch (CHR 0x22) # t"
  "\<exists>t. html_close = uch (CHR 0x22) # t"
  by (simp_all add: html_og_title_def html_og_description_def html_og_image_def html_close_def
        ustr_def)

lemma embedded_values_html:
  assumes a: "uch CHR ''<'' \<notin> set a" "uch (CHR 0x22) \<notin> set a"
    and b: "uch (CHR 0x22) \<notin> set b"
  shows "embedded_values (html a b) = Some (a, a, a, b)"
proof -
  obtain t1 t2 t3 t4 where h:
    "html_og_title = uch CHR ''<'' # t1" "html_og_description = uch (CHR 0x22) # t2"
    "html_og_image = uch (CHR 0x22) # t3" "html_close = uch (CHR 0x22) # t4"
    using segment_heads by blast
  have r0: "strip_prefix html_open (html a b) =
      Some (a @ html_og_title @ a @ html_og_description @ a @ html_og_image @ b @ html_close)"
    by (simp add: html_def strip_prefix_append)
  have f0: "text_from CHR ''<'' (a @ html_og_title @ a @ html_og_description @ a @ html_og_image @ b @ html_close)
      = html_og_title @ a @ html_og_description @ a @ html_og_image @ b @ html_close"
    and u0: "text_until CHR ''<'' (a @ html_og_title @ a @ html_og_description @ a @ html_og_image @ b @ html_close) = a"
    using a(1) by (simp_all add: h(1) text_from_stop text_until_stop)
  have f1: "text_from (CHR 0x22) (a @ html_og_description @ a @ html_og_image @ b @ html_close)
      = html_og_description @ a @ html_og_image @ b @ html_close"
    and u1: "text_until (CHR 0x22) (a @ html_og_description @ a @ html_og_image @ b @ html_close) = a"
    using a(2) by (simp_all add: h(2) text_from_stop text_until_stop)
  have f2: "text_from (CHR 0x22) (a @ html_og_image @ b @ html_close) = html_og_image @ b @ html_close"
    and u2: "text_until (CHR 0x22) (a @ html_og_image @ b @ html_close) = a"
    using a(2) by (simp_all add: h(3) text_from_stop text_until_stop)
  have u3: "text_until (CHR 0x22) (b @ html_close) = b"
    using b by (simp add: h(4) text_until_stop)
  show ?thesis
    by (simp add: embedded_values_def r0 f0 u0 f1 u1 f2 u2 u3 strip_prefix_append)
qed

text \<open>Rendering two strings gives the 200 document of their escaped texts.\<close>

lemma createMetaResponse_Str:
  "createMetaResponse (Str nm) (Str link) =
     Inr \<lparr>status = 200,
          headers =
            [(ustr ''Content-Type'', ustr ''text/html;charset=UTF-8''),
             (ustr ''Cache-Control'', ustr ''public, max-age=86400, s-maxage=86400''),
             (ustr ''X-Robots-Tag'', ustr ''noindex, nofollow'')],
          body = html (escaped nm) (escaped link)\<rparr>"
  by (simp add: createMetaResponse_def escapeHtml_Str)

lemma createMetaResponse_reply:
  "createMetaResponse nm link = Inr r \<Longrightarrow>
   status r = 200 \<and>
   headers r =
     [(ustr ''Content-Type'', ustr ''text/html;charset=UTF-8''),
      (ustr ''Cache-Control'', ustr ''public, max-age=86400, s-maxage=86400''),
      (ustr ''X-Robots-Tag'', ustr ''noindex, nofollow'')]"
  by (auto simp: createMetaResponse_def split: sum.splits)

lemma createMetaResponse_renderable:
  "renderable nm \<Longrightarrow> renderable link \<Longrightarrow> \<exists>r. createMetaResponse nm link = Inr r"
  by (auto simp: createMetaResponse_def renderable_def split: sum.splits)

lemma createMetaResponse_throws:
  "createMetaResponse nm link = Inl err \<Longrightarrow> \<not> (renderable nm \<and> renderable link)"
  by (auto simp: createMetaResponse_def renderable_def split: sum.splits)

lemma renderable_Str: "renderable (Str s)" "renderable None"
  by (simp_all add: renderable_def escapeHtml_Str escapeHtml_undefined)

lemma createMetaResponse_embedded:
  "createMetaResponse (Str nm) (Str link) = Inr r \<Longrightarrow>
   embedded_values (body r) = Some (escaped nm, escaped nm, escaped nm, escaped link)"
  by (auto simp: createMetaResponse_Str embedded_values_html escaped_clean)

text \<open>
  C6. For every name and avatar link, whatever characters they hold: rendering them does
  not throw; the title, \<open>og:title\<close>, \<open>og:description\<close> and \<open>og:image\<close> read back from the
  rendered document and decoded are the name, three times, and the link; decoding undoes
  the escaping, and the escaping is injective.
\<close>

theorem escapeHtml_round_trip:
  "(case createMetaResponse (Str nm) (Str link) of
      Inl e \<Rightarrow> None
    | Inr r \<Rightarrow>
        map_option (\<lambda>(t, ot, od, oi). (unescapeHtml t, unescapeHtml ot, unescapeHtml od, unescapeHtml oi))
          (embedded_values (body r))) = Some (nm, nm, nm, link)
   \<and> map_sum id unescapeHtml (escapeHtml (Str nm)) = Inr nm
   \<and> inj (\<lambda>s. escapeHtml (Str s))"
proof -
  have "inj escaped"
    by (rule inj_on_inverseI [where g = unescapeHtml]) (rule unescape_escaped)
  then have "inj (\<lambda>s. escapeHtml (Str s))"
    by (simp add: escapeHtml_Str inj_def)
  then show ?thesis
    by (simp add: createMetaResponse_Str embedded_values_html escaped_clean escapeHtml_Str
        unescape_escaped)
qed

text \<open>A name with all five characters, and a link with an ampersand.\<close>

theorem escapeHtml_round_trip_witness:
  \<open>escapeHtml (Str (ustr ''Tom & "Jerry" <b>'' @ [0x27])) =
     Inr (ustr ''Tom &amp; &quot;Jerry&quot; &lt;b&gt;&#39;'')
   \<and> unescapeHtml (ustr ''Tom &amp; &quot;Jerry&quot; &lt;b&gt;&#39;'') =
     ustr ''Tom & "Jerry" <b>'' @ [0x27]
   \<and> (case createMetaResponse (Str (ustr ''Tom & "Jerry" <b>'' @ [0x27]))
              (Str (ustr ''http://x/i.png?a=1&b=2'')) of
         Inl e \<Rightarrow> None
       | Inr r \<Rightarrow>
           map_option (\<lambda>(t, ot, od, oi). (unescapeHtml t, unescapeHtml ot, unescapeHtml od, unescapeHtml oi))
             (embedded_values (body r))) =
     Some (ustr ''Tom & "Jerry" <b>'' @ [0x27], ustr ''Tom & "Jerry" <b>'' @ [0x27],
           ustr ''Tom & "Jerry" <b>'' @ [0x27], ustr ''http://x/i.png?a=1&b=2'')\<close>
proof -
  have e: \<open>escapeHtml (Str (ustr ''Tom & "Jerry" <b>'' @ [0x27])) =
     Inr (ustr ''Tom &amp; &quot;Jerry&quot; &lt;b&gt;&#39;'')\<close>
    by (simp add: escapeHtml_def replaceAll_def ustr_def uch_def)
  show ?thesis
    using escapeHtml_round_trip [of \<open>ustr ''Tom & "Jerry" <b>'' @ [0x27]\<close>
        "ustr ''http://x/i.png?a=1&b=2''"] e
    by simp
qed

section \<open>Properties of the resolution\<close>

text \<open>
  What a \<open>try\<close> block makes of a source object, its exceptions caught, is the validation
  rule of the specification.
\<close>

lemma accept_spec: "(case accept obj of Inl e \<Rightarrow> None | Inr r \<Rightarrow> r) = spec_record obj"
  by (auto simp: accept_def spec_record_def trimmed_name_def falsy_def or_empty_def
        or_empty_string_def name_def avatarLink_def property_def
      split: option.splits jvalue.splits)

lemma js_fetch_armed:
  "js_fetch R url True (setTimeout t s) =
     (case net R url of (ms, outcome) \<Rightarrow>
        if ms < t then (outcome, s\<lparr>trace := trace s @ [Fetch url], timer := Armed t\<rparr>)
        else (Inl AbortError, s\<lparr>trace := trace s @ [Fetch url], timer := Fired\<rparr>))"
  by (simp add: js_fetch_def setTimeout_def Let_def split: prod.splits)

lemma js_fetch_plain:
  "js_fetch R url False s = (snd (net R url), s\<lparr>trace := trace s @ [Fetch url]\<rparr>)"
  by (simp add: js_fetch_def Let_def split: prod.splits timer_state.splits)

lemma accept_throws: "accept obj = Inl err \<Longrightarrow> spec_record obj = None"
  using accept_spec [of obj] by simp

lemma accept_returns: "accept obj = Inr r \<Longrightarrow> spec_record obj = r"
  using accept_spec [of obj] by simp

lemma primary_step_result:
  "fst (primary_step R ident s) = spec_record (spec_primary R ident)"
proof -
  have n: "spec_record None = None"
    by (simp add: spec_record_def)
  have d: "get_data j = Inl err \<Longrightarrow> spec_record (property j ''data'') = None" for j err
    by (auto simp: get_data_def property_def n split: jvalue.splits)
  have g: "get_data j = Inr v \<Longrightarrow> property j ''data'' = v" for j v
    by (auto simp: get_data_def split: jvalue.splits)
  show ?thesis
    by (auto simp: primary_step_def primary_try_def js_fetch_armed spec_primary_def
          API_TIMEOUT_def Let_def n d accept_throws accept_returns dest!: g
        split: prod.splits sum.splits if_splits)
qed

lemma backup_step_result:
  "fst (backup_step R ident s) = spec_record (spec_backup R ident)"
proof -
  have n: "spec_record None = None"
    by (simp add: spec_record_def)
  show ?thesis
    by (auto simp: backup_step_def backup_try_def js_fetch_plain spec_backup_def Let_def n
          accept_throws accept_returns
        split: prod.splits sum.splits if_splits)
qed

lemma primary_step_trace:
  "trace (snd (primary_step R ident s)) = trace s @ [Fetch (API_URL @ ustr ''?id='' @ ident)]"
  by (auto simp: primary_step_def primary_try_def js_fetch_armed clearTimeout_def Let_def
      split: prod.splits sum.splits if_splits)

lemma backup_step_trace:
  "trace (snd (backup_step R ident s)) =
     trace s @ [Fetch (BACKUP_URL @ ustr ''/'' @ ident @ ustr ''.json'')]"
  by (auto simp: backup_step_def backup_try_def js_fetch_plain Let_def
      split: prod.splits sum.splits if_splits)

lemma fetchMetaData_result:
  "fst (fetchMetaData R ident s) = Inr (spec_resolve R ident)"
  using primary_step_result [of R ident s]
        backup_step_result [of R ident "snd (primary_step R ident s)"]
  by (auto simp: fetchMetaData_def spec_resolve_def split: prod.splits option.splits)

lemma fetchMetaData_eq:
  "fetchMetaData R ident s = (Inr (spec_resolve R ident), snd (fetchMetaData R ident s))"
  using fetchMetaData_result [of R ident s] by (cases "fetchMetaData R ident s") simp

text \<open>The backup source is asked exactly when the primary source gave no usable record.\<close>

lemma fetchMetaData_trace:
  "trace (snd (fetchMetaData R ident s)) =
     trace s @ Fetch (API_URL @ ustr ''?id='' @ ident) #
       (if spec_record (spec_primary R ident) = None
        then [Fetch (BACKUP_URL @ ustr ''/'' @ ident @ ustr ''.json'')] else [])"
  using primary_step_result [of R ident s] primary_step_trace [of R ident s]
        backup_step_trace [of R ident "snd (primary_step R ident s)"]
  by (auto simp: fetchMetaData_def split: prod.splits option.splits)




text \<open>The name of a resolved record is always a string.\<close>

lemma spec_record_name: "spec_record obj = Some m \<Longrightarrow> \<exists>n a. m = meta n a"
  by (auto simp: spec_record_def split: option.splits jvalue.splits if_splits)

lemma spec_resolve_meta: "\<exists>n a. spec_resolve R x = meta n a"
  using spec_record_name [of "spec_primary R x"] spec_record_name [of "spec_backup R x"]
  by (auto simp: spec_resolve_def split: option.splits)

lemma name_meta: "name (meta n a) = Str n"
  by (simp add: name_def property_def meta_def ustr_def)

lemma avatarLink_meta: "avatarLink (meta n a) = Some a"
  by (simp add: avatarLink_def property_def meta_def ustr_def uch_def)

lemma spec_resolve_name: "renderable (name (spec_resolve R x))"
  using spec_resolve_meta [of R x] by (auto simp: name_meta renderable_Str)

lemma demo_resolve:
  "spec_resolve demo_runtime (ustr ''abc123'') = meta (ustr ''Win'') (JString (ustr ''http://x/img.png''))"
  by (simp add: spec_resolve_def spec_primary_def spec_record_def API_URL_def trim_def is_ws_def
      name_def avatarLink_def property_def meta_def ustr_def uch_def demo_runtime_def demo_net_def)


lemma slow_resolve:
  "spec_resolve slow_runtime (ustr ''abc123'') = meta (ustr ''Bar'') (JString [])"
  by (simp add: spec_resolve_def spec_primary_def spec_record_def API_URL_def trim_def is_ws_def
      name_def avatarLink_def property_def meta_def ustr_def uch_def spec_backup_def slow_runtime_def slow_net_def BACKUP_URL_def)

lemma offline_resolve:
  "spec_resolve offline_runtime x = meta [] (JString [])"
  by (simp add: spec_resolve_def spec_primary_def spec_backup_def spec_record_def offline_runtime_def)

lemma odd_resolve:
  "spec_resolve odd_runtime (ustr ''abc123'') = meta (ustr ''Win'') odd_link"
  by (simp add: spec_resolve_def spec_primary_def spec_record_def API_URL_def trim_def is_ws_def
      name_def avatarLink_def property_def meta_def ustr_def uch_def odd_runtime_def odd_net_def odd_link_def)

text \<open>
  C3. For every identifier, runtime and starting state, \<open>fetchMetaData\<close> returns and
  does not throw, and its record is the one the specification describes: the record of
  the primary source when that source answers within the timeout with HTTP success and
  a name that is not empty after trimming; else the record of the backup source under
  the same rule; else the record of two empty strings.
\<close>

theorem fetchMetaData_total:
  "\<exists>s'. fetchMetaData R ident s = (Inr (spec_resolve R ident), s')"
  using fetchMetaData_eq [of R ident s] by blast

text \<open>
  The three outcomes on examples: the primary source answers; the primary source is too
  slow and the backup source answers; both fail.
\<close>

theorem fetchMetaData_total_witness:
  "fst (fetchMetaData demo_runtime (ustr ''abc123'') start) =
     Inr (meta (ustr ''Win'') (JString (ustr ''http://x/img.png'')))
   \<and> fst (fetchMetaData slow_runtime (ustr ''abc123'') start) =
     Inr (meta (ustr ''Bar'') (JString []))
   \<and> fst (fetchMetaData offline_runtime (ustr ''abc123'') start) =
     Inr (meta [] (JString []))"
  using fetchMetaData_total [of demo_runtime "ustr ''abc123''" start]
        fetchMetaData_total [of slow_runtime "ustr ''abc123''" start]
        fetchMetaData_total [of offline_runtime "ustr ''abc123''" start]
  by (auto simp: demo_resolve slow_resolve offline_resolve)

text \<open>
  The timer after the primary step: disarmed when the request resolved in time, fired
  when the timeout came first, and still armed when the request was rejected in time.
\<close>

lemma primary_step_timer:
  "timer (snd (primary_step R ident s)) =
     (case net R (API_URL @ ustr ''?id='' @ ident) of
        (ms, Inl err) \<Rightarrow> if ms < 3000 then Armed 3000 else Fired
      | (ms, Inr rsp) \<Rightarrow> if ms < 3000 then Disarmed else Fired)"
  by (auto simp: primary_step_def primary_try_def js_fetch_armed clearTimeout_def Let_def
        API_TIMEOUT_def
      split: prod.splits sum.splits if_splits)

text \<open>
  C9. The claim: the timer armed for the primary fetch is disarmed on every way out of
  that fetch, failure included. When the request to the primary source is rejected after
  40 ms, control jumps from the \<open>await\<close> of line 143 to the \<open>catch\<close> of line 167, past
  the \<open>clearTimeout\<close> of line 149: the primary step ends with its timer still armed for
  3000 ms.
\<close>

theorem timer_left_armed_on_network_failure:
  "net offline_runtime (API_URL @ ustr ''?id=abc123'') = (40, Inl NetworkFailure)
   \<and> primary_step offline_runtime (ustr ''abc123'') start =
       (None, \<lparr>trace = [Fetch (API_URL @ ustr ''?id=abc123'')], timer = Armed 3000\<rparr>)"
  by (simp add: primary_step_def primary_try_def js_fetch_def setTimeout_def offline_runtime_def
      start_def API_TIMEOUT_def ustr_def)

section \<open>Properties of the request handler\<close>

lemma facebook_crawls:
  "crawler demo_runtime article_request" "crawler demo_runtime home_request"
  "crawler offline_runtime article_request" "crawler odd_runtime article_request"
  by (simp_all add: crawler_def demo_runtime_def offline_runtime_def odd_runtime_def
      article_request_def home_request_def facebook_def or_empty_def ascii_lower_def
      isFacebookCrawler_def ustr_def uch_def)

lemma browser_not_crawler:
  "\<not> crawler demo_runtime browser_request" "\<not> crawler demo_runtime constructor_request"
  by (simp_all add: crawler_def demo_runtime_def browser_request_def constructor_request_def
      or_empty_def ascii_lower_def isFacebookCrawler_def ustr_def uch_def)

lemma article_identified: "identifies article_request (ustr ''abc123'')"
  by (simp add: identifies_def article_request_def slice_from_def extractId_def
      test_alnum_def alnum_def ustr_def uch_def)

lemma map_of_DOMAIN_MAP: "map_of DOMAIN_MAP h = Some d \<Longrightarrow> d \<noteq> []"
  by (auto simp: DOMAIN_MAP_def ustr_def split: if_splits)

text \<open>
  The fast path for a hostname that names no inherited property: a 301 whose
  \<open>Location\<close> is the destination of the hostname in the table, or the default
  destination when the table has none, followed by the path and the query string; the
  state is returned as it was, so nothing was fetched and the cache was not touched.
\<close>

lemma redirect_fast_path:
  assumes "\<not> crawler R request" and "hostname request \<notin> set Object_prototype"
  shows "fetch_handler R e request s =
     (Inr \<lparr>status = 301,
           headers = [(ustr ''Location'',
             (case map_of DOMAIN_MAP (hostname request) of
                Some destination \<Rightarrow> destination
              | None \<Rightarrow> DEFAULT_REDIRECT) @ pathname request @ search request)],
           body = []\<rparr>, s)"
  using assms
  by (auto simp: fetch_handler_def crawler_def Let_def Response_redirect_def DOMAIN_MAP_get_def
      dest: map_of_DOMAIN_MAP split: option.splits)

text \<open>The example of the specification: \<open>tuneblast.us\<close>, path \<open>/foo\<close>, query \<open>?x=1\<close>.\<close>

lemma redirect_tuneblast:
  "fetch_handler demo_runtime empty_cache browser_request start =
     (Inr \<lparr>status = 301,
           headers = [(ustr ''Location'', ustr ''https://anhus.livextop.com/foo?x=1'')],
           body = []\<rparr>, start)"
proof -
  have h: "hostname browser_request \<notin> set Object_prototype"
    by (simp add: browser_request_def Object_prototype_def ustr_def uch_def)
  show ?thesis
    using redirect_fast_path [OF browser_not_crawler(1) h, of empty_cache start]
    by (simp add: browser_request_def DOMAIN_MAP_def ustr_def uch_def)
qed

text \<open>
  C7. The claim: every request that does not classify as a crawler gets a 301 to the
  destination mapped to its hostname, or to the default destination when the hostname is
  absent from the mapping. The hostname \<open>constructor\<close> is absent from the mapping, and
  \<open>DOMAIN_MAP[url.hostname]\<close> on line 51 finds the property of that name which the
  object literal inherits; it is truthy, so the default is not taken, the target built
  on line 53 is no URL, and the handler throws instead of redirecting.
\<close>

theorem redirect_inherited_hostname_throws:
  "\<not> crawler demo_runtime constructor_request
   \<and> hostname constructor_request = ustr ''constructor''
   \<and> map_of DOMAIN_MAP (ustr ''constructor'') = None
   \<and> DOMAIN_MAP_get (ustr ''constructor'') = Inherited
   \<and> fetch_handler demo_runtime empty_cache constructor_request start = (Inl TypeError, start)"
proof -
  have c: "\<not> isFacebookCrawler (toLowerCase demo_runtime (or_empty (user_agent constructor_request)))"
    using browser_not_crawler(2) by (simp add: crawler_def)
  have h: "hostname constructor_request = ustr ''constructor''"
    by (simp add: constructor_request_def)
  have m: "map_of DOMAIN_MAP (ustr ''constructor'') = None"
    by (simp add: DOMAIN_MAP_def ustr_def uch_def)
  have g: "DOMAIN_MAP_get (ustr ''constructor'') = Inherited"
    by (simp add: DOMAIN_MAP_get_def m) (simp add: Object_prototype_def)
  have "fetch_handler demo_runtime empty_cache constructor_request start = (Inl TypeError, start)"
    unfolding fetch_handler_def Let_def by (simp only: c h g) simp
  with browser_not_crawler(2) h m g show ?thesis by simp
qed

lemma escaped_HOME_TITLE: "escaped HOME_TITLE = HOME_TITLE"
  by (simp add: escaped_def escape_char_def HOME_TITLE_def ustr_def uch_def)

lemma home_page:
  "\<exists>r. createMetaResponse (Str HOME_TITLE) (Str []) = Inr r \<and> status r = 200
       \<and> embedded_values (body r) = Some (HOME_TITLE, HOME_TITLE, HOME_TITLE, [])"
proof -
  have "embedded_values (html (escaped HOME_TITLE) (escaped [])) =
      Some (escaped HOME_TITLE, escaped HOME_TITLE, escaped HOME_TITLE, escaped [])"
    by (rule embedded_values_html) (rule escaped_clean)+
  then show ?thesis
    by (simp add: createMetaResponse_Str escaped_HOME_TITLE escaped_empty)
qed

text \<open>
  C2, as the code has it. A crawler asking for the root path gets the 200 document of
  the home placeholder: its title, \<open>og:title\<close> and \<open>og:description\<close> are the fixed text
  \<open>HOME_TITLE\<close> and its \<open>og:image\<close> is empty. Nothing is fetched or cached.
\<close>

theorem crawler_home_page:
  assumes "crawler R request" and "pathname request = ustr ''/'' \<or> pathname request = []"
  shows "fetch_handler R e request s = (createMetaResponse (Str HOME_TITLE) (Str []), s)
         \<and> (\<exists>r. createMetaResponse (Str HOME_TITLE) (Str []) = Inr r \<and> status r = 200
               \<and> embedded_values (body r) = Some (HOME_TITLE, HOME_TITLE, HOME_TITLE, []))"
proof -
  have "fetch_handler R e request s = (createMetaResponse (Str HOME_TITLE) (Str []), s)"
    using assms by (auto simp: fetch_handler_def crawler_def Let_def)
  then show ?thesis
    using home_page by simp
qed

theorem crawler_home_page_witness:
  "crawler demo_runtime home_request \<and> pathname home_request = ustr ''/''
   \<and> fetch_handler demo_runtime no_cache home_request start =
       (createMetaResponse (Str HOME_TITLE) (Str []), start)
   \<and> (\<exists>r. createMetaResponse (Str HOME_TITLE) (Str []) = Inr r \<and> status r = 200
         \<and> embedded_values (body r) = Some (HOME_TITLE, HOME_TITLE, HOME_TITLE, []))"
proof -
  have p: "pathname home_request = ustr ''/''" by (simp add: home_request_def)
  then have q: "pathname home_request = ustr ''/'' \<or> pathname home_request = []" by simp
  show ?thesis
    using crawler_home_page [OF facebook_crawls(2) q, of no_cache start] facebook_crawls(2) p
    by simp
qed

text \<open>
  C2, as the claim has it, fails: on the crawler request for \<open>/\<close> the title, \<open>og:title\<close>
  and \<open>og:description\<close> of the reply are \<open>HOME_TITLE\<close>, which is not the empty string.
\<close>

theorem crawler_home_title_not_empty:
  "crawler demo_runtime home_request \<and> pathname home_request = ustr ''/''
   \<and> fst (fetch_handler demo_runtime empty_cache home_request start) =
       createMetaResponse (Str HOME_TITLE) (Str [])
   \<and> (\<exists>r. createMetaResponse (Str HOME_TITLE) (Str []) = Inr r \<and> status r = 200
         \<and> embedded_values (body r) = Some (HOME_TITLE, HOME_TITLE, HOME_TITLE, []))
   \<and> HOME_TITLE \<noteq> []"
proof -
  have c: "isFacebookCrawler (toLowerCase demo_runtime (or_empty (user_agent home_request)))"
    using facebook_crawls(2) by (simp add: crawler_def)
  have p: "pathname home_request = ustr ''/''" by (simp add: home_request_def)
  have "fst (fetch_handler demo_runtime empty_cache home_request start) =
       createMetaResponse (Str HOME_TITLE) (Str [])"
    unfolding fetch_handler_def Let_def by (simp only: c p) simp
  moreover have "HOME_TITLE \<noteq> []"
    by (simp add: HOME_TITLE_def)
  ultimately show ?thesis
    using facebook_crawls(2) p home_page by simp
qed

text \<open>
  The crawler path for a path that gives an identifier: the cache lookup, then the
  resolution, the write-back and the rendering of the resolved record.
\<close>

lemma handler_identified:
  assumes "crawler R request" and "identifies request x"
  shows "fetch_handler R e request s =
     (case cache_read e x s of
        (Some r, s1) \<Rightarrow> (Inr r, s1)
      | (None, s1) \<Rightarrow>
          (createMetaResponse (name (spec_resolve R x)) (avatarLink (spec_resolve R x)),
           cache_write R e x (spec_resolve R x) (snd (fetchMetaData R x s1))))"
proof -
  from assms(2) have p: "pathname request \<noteq> ustr ''/''" "pathname request \<noteq> []"
    and x: "extractId (slice_from (pathname request) 1) = Some x"
    by (simp_all add: identifies_def)
  from x have ne: "x \<noteq> []" by (rule extractId_nonempty)
  have c: "isFacebookCrawler (toLowerCase R (or_empty (user_agent request)))"
    using assms(1) by (simp add: crawler_def)
  show ?thesis
    unfolding fetch_handler_def Let_def
    apply (simp only: c p x if_False simp_thms)
    apply (simp add: falsy_def or_empty_def ne split: prod.splits option.splits)
    apply (intro allI impI)
    subgoal for s1
      using fetchMetaData_eq [of R x s1] by (simp add: or_empty_def)
    done
qed

lemma cache_read_absent: "META_CACHE e = None \<Longrightarrow> cache_read e x s = (None, s)"
  by (simp add: cache_read_def)

lemma cache_read_present:
  "META_CACHE e = Some c \<Longrightarrow>
   cache_read e x s =
     ((case kv_get c (ustr ''meta:'' @ x) of
         Inl err \<Rightarrow> None
       | Inr cached \<Rightarrow>
           if truthy cached then
             (case createMetaResponse (name cached) (avatarLink cached) of
                Inl err \<Rightarrow> None
              | Inr r \<Rightarrow> Some r)
           else None),
      s\<lparr>trace := trace s @ [KvGet (ustr ''meta:'' @ x)]\<rparr>)"
  by (simp add: cache_read_def cache_try_def cache_key_def Let_def split: sum.splits)

lemma createMetaResponse_returns:
  "createMetaResponse nm link = Inl err \<Longrightarrow> \<not> (renderable nm \<and> renderable link)"
  "createMetaResponse nm link = Inr r \<Longrightarrow> renderable nm \<and> renderable link"
  by (auto simp: createMetaResponse_def renderable_def split: sum.splits)

lemma cache_read_missed:
  "META_CACHE e = Some c \<Longrightarrow>
   fst (cache_read e x s) = None \<longleftrightarrow> cache_missed e (ustr ''meta:'' @ x)"
  by (auto simp: cache_read_present cache_missed_def
      dest: createMetaResponse_returns split: sum.splits)

lemma cache_write_trace:
  "trace (cache_write R e x m s) =
     trace s @ (if META_CACHE e \<noteq> None \<and> \<not> js_not (name m)
                then [KvPut (ustr ''meta:'' @ x) (JSON_stringify R m) 86400] else [])"
  by (simp add: cache_write_def cache_key_def CACHE_TTL_def Let_def split: option.splits sum.splits)

text \<open>
  Every reply of the crawler path is a 200 with the three headers, as long as the avatar
  link of the resolved record can be rendered.
\<close>

lemma crawler_path_200_when_renderable:
  assumes "crawler R request"
    and "\<And>x. identifies request x \<Longrightarrow> renderable (avatarLink (spec_resolve R x))"
  shows "\<exists>r. fst (fetch_handler R e request s) = Inr r \<and> status r = 200
           \<and> headers r =
               [(ustr ''Content-Type'', ustr ''text/html;charset=UTF-8''),
                (ustr ''Cache-Control'', ustr ''public, max-age=86400, s-maxage=86400''),
                (ustr ''X-Robots-Tag'', ustr ''noindex, nofollow'')]"
proof -
  have "\<exists>r. fst (fetch_handler R e request s) = Inr r
          \<and> (\<exists>nm link. createMetaResponse nm link = Inr r)"
  proof (cases "pathname request = ustr ''/'' \<or> pathname request = []")
    case True
    with assms(1) have "fst (fetch_handler R e request s) =
        createMetaResponse (Str HOME_TITLE) (Str [])"
      by (auto simp: fetch_handler_def crawler_def Let_def)
    then show ?thesis
      using createMetaResponse_renderable [OF renderable_Str(1) renderable_Str(1)] by metis
  next
    case False
    show ?thesis
    proof (cases "extractId (slice_from (pathname request) 1)")
      case None
      with assms(1) False have "fst (fetch_handler R e request s) =
          createMetaResponse (Str NOT_FOUND_TITLE) (Str [])"
        by (auto simp: fetch_handler_def crawler_def Let_def falsy_def)
      then show ?thesis
        using createMetaResponse_renderable [OF renderable_Str(1) renderable_Str(1)] by metis
    next
      case (Some x)
      with False have i: "identifies request x" by (simp add: identifies_def)
      obtain r where r: "createMetaResponse (name (spec_resolve R x)) (avatarLink (spec_resolve R x)) = Inr r"
        using createMetaResponse_renderable [OF spec_resolve_name assms(2) [OF i]] by blast
      show ?thesis
      proof (cases "META_CACHE e")
        case None
        with handler_identified [OF assms(1) i, of e s] r show ?thesis
          by (auto simp: cache_read_absent)
      next
        case (Some c)
        with handler_identified [OF assms(1) i, of e s] r show ?thesis
          by (auto simp: cache_read_present split: sum.splits if_splits)
      qed
    qed
  qed
  then show ?thesis
    using createMetaResponse_reply by blast
qed

text \<open>
  C8. The claim: every request on the crawler path gets a 200, whatever the cache and
  the sources answer. When the primary source answers with HTTP success, a name and an
  avatar link that is the object \<open>{"toString": 1}\<close>, \<open>fetchMetaData\<close> returns the record
  with that link (line 159 keeps any truthy value), and \<open>createMetaResponse\<close> is called
  with it on line 104, outside every \<open>try\<close>; \<open>String(str)\<close> on line 239 throws a
  \<open>TypeError\<close>, and the handler throws instead of replying.
\<close>

theorem crawler_reply_throws_on_object_link:
  "crawler odd_runtime article_request \<and> identifies article_request (ustr ''abc123'')
   \<and> fst (fetchMetaData odd_runtime (ustr ''abc123'') start) = Inr (meta (ustr ''Win'') odd_link)
   \<and> truthy odd_link \<and> to_string odd_link = Inl TypeError
   \<and> fst (fetch_handler odd_runtime empty_cache article_request start) = Inl TypeError"
proof -
  have t: "truthy odd_link" "to_string odd_link = Inl TypeError"
    by (simp_all add: odd_link_def ustr_def)
  then have r: "createMetaResponse (Str (ustr ''Win'')) (Some odd_link) = Inl TypeError"
    by (simp add: createMetaResponse_def escapeHtml_Str) (simp add: escapeHtml_def)
  have m: "fst (fetchMetaData odd_runtime (ustr ''abc123'') start) = Inr (meta (ustr ''Win'') odd_link)"
    by (simp add: fetchMetaData_result odd_resolve)
  have e: "cache_read empty_cache (ustr ''abc123'') start =
      (None, start\<lparr>trace := trace start @ [KvGet (ustr ''meta:'' @ ustr ''abc123'')]\<rparr>)"
    by (simp add: cache_read_def cache_try_def cache_key_def empty_cache_def)
  have "fst (fetch_handler odd_runtime empty_cache article_request start) = Inl TypeError"
    by (simp add: handler_identified [OF facebook_crawls(4) article_identified] e odd_resolve
        name_meta avatarLink_meta r)
  then show ?thesis
    using facebook_crawls(4) article_identified m t by simp
qed

text \<open>
  C4. On the crawler path with the identifier \<open>x\<close>, when the cache is bound and reading
  \<open>meta:x\<close> resolves with a record whose name and avatar link can be rendered (strings
  can), the reply is that record rendered, a 200, and the only effect of the request is
  that one read: no fetch and no cache write.
\<close>

theorem cache_hit_short_circuit:
  assumes "crawler R request" and "identifies request x"
    and "META_CACHE e = Some c" and "kv_get c (ustr ''meta:'' @ x) = Inr cached"
    and "truthy cached" and "renderable (name cached)" and "renderable (avatarLink cached)"
  shows "(\<exists>r. createMetaResponse (name cached) (avatarLink cached) = Inr r \<and> status r = 200
            \<and> fetch_handler R e request s =
                (Inr r, s\<lparr>trace := trace s @ [KvGet (ustr ''meta:'' @ x)]\<rparr>))
         \<and> fetches (snd (fetch_handler R e request s)) = fetches s
         \<and> cache_writes (snd (fetch_handler R e request s)) = cache_writes s"
proof -
  obtain r where r: "createMetaResponse (name cached) (avatarLink cached) = Inr r"
    using createMetaResponse_renderable [OF assms(6) assms(7)] by blast
  then have "status r = 200"
    using createMetaResponse_reply by blast
  with r assms show ?thesis
    by (simp add: handler_identified cache_read_present fetches_def cache_writes_def)
qed

lemma warm_cached:
  "kv_get warm_kv (ustr ''meta:'' @ ustr ''abc123'') =
     Inr (meta (ustr ''Win'') (JString (ustr ''http://x/img.png'')))"
  by (simp add: warm_kv_def ustr_def)

theorem cache_hit_short_circuit_witness:
  "crawler demo_runtime article_request \<and> identifies article_request (ustr ''abc123'')
   \<and> fetch_handler demo_runtime warm_cache article_request start =
       (createMetaResponse (Str (ustr ''Win'')) (Str (ustr ''http://x/img.png'')),
        \<lparr>trace = [KvGet (ustr ''meta:abc123'')], timer = Unset\<rparr>)
   \<and> (\<exists>r. createMetaResponse (Str (ustr ''Win'')) (Str (ustr ''http://x/img.png'')) = Inr r
         \<and> status r = 200)"
proof -
  have b: "META_CACHE warm_cache = Some warm_kv" by (simp add: warm_cache_def)
  have t: "truthy (meta (ustr ''Win'') (JString (ustr ''http://x/img.png'')))"
    by (simp add: meta_def)
  have k: "ustr ''meta:'' @ ustr ''abc123'' = ustr ''meta:abc123''"
    by (simp add: ustr_def)
  show ?thesis
    using cache_hit_short_circuit [OF facebook_crawls(1) article_identified b warm_cached t,
        of start]
      facebook_crawls(1) article_identified
    by (auto simp: name_meta avatarLink_meta renderable_Str start_def k)
qed

text \<open>
  C5. On the crawler path with the identifier \<open>x\<close>, the request adds a cache write
  exactly when the cache was missed and the resolution gave a record with a name that is
  not empty; the write is then the one \<open>put\<close> of that record serialised, under the key
  \<open>meta:x\<close>, with a time to live of 86400 seconds. The reply is the same whatever \<open>put\<close>
  does, rejection included.
\<close>

theorem cache_write_back:
  assumes "crawler R request" and "identifies request x"
  shows "cache_writes (snd (fetch_handler R e request s)) =
           cache_writes s @
             (if cache_missed e (ustr ''meta:'' @ x) \<and> \<not> js_not (name (spec_resolve R x))
              then [KvPut (ustr ''meta:'' @ x) (JSON_stringify R (spec_resolve R x)) 86400]
              else [])
         \<and> fst (fetch_handler R (with_put p e) request s) = fst (fetch_handler R e request s)"
proof (cases "META_CACHE e")
  case None
  then have "META_CACHE (with_put p e) = None" by (simp add: with_put_def)
  with None assms show ?thesis
    by (simp add: handler_identified cache_read_absent cache_missed_def cache_writes_def
        cache_write_trace fetchMetaData_trace)
next
  case (Some c)
  then have w: "META_CACHE (with_put p e) = Some (c\<lparr>kv_put := p\<rparr>)" by (simp add: with_put_def)
  have same: "fst (cache_read (with_put p e) x s) = fst (cache_read e x s)"
    by (simp add: cache_read_present [OF Some] cache_read_present [OF w])
  have st: "snd (cache_read e x s) = s\<lparr>trace := trace s @ [KvGet (ustr ''meta:'' @ x)]\<rparr>"
    by (simp add: cache_read_present [OF Some])
  show ?thesis
  proof (cases "fst (cache_read e x s)")
    case None
    then have miss: "cache_missed e (ustr ''meta:'' @ x)"
      using cache_read_missed [OF Some] by simp
    from None same have "fst (cache_read (with_put p e) x s) = None" by simp
    with None miss st assms Some show ?thesis
      by (cases "cache_read e x s"; cases "cache_read (with_put p e) x s")
         (simp add: handler_identified cache_writes_def cache_write_trace fetchMetaData_trace)
  next
    case (Some r)
    then have hit: "\<not> cache_missed e (ustr ''meta:'' @ x)"
      using cache_read_missed [OF \<open>META_CACHE e = Some c\<close>, of x s] by simp
    from Some same have "fst (cache_read (with_put p e) x s) = Some r" by simp
    with Some hit st assms show ?thesis
      by (cases "cache_read e x s"; cases "cache_read (with_put p e) x s")
         (simp add: handler_identified cache_writes_def)
  qed
qed

lemma empty_cache_missed: "cache_missed empty_cache k"
  by (simp add: cache_missed_def empty_cache_def)

lemma demo_stringify:
  \<open>JSON_stringify demo_runtime (meta (ustr ''Win'') (JString (ustr ''http://x/img.png''))) =
     ustr ''{"name":"Win","avatarLink":"http://x/img.png"}''\<close>
  by (simp add: demo_runtime_def plain_stringify_def string_of_def name_meta avatarLink_meta)
     (simp add: ustr_def)

theorem cache_write_back_witness:
  \<open>crawler demo_runtime article_request \<and> identifies article_request (ustr ''abc123'')
   \<and> cache_writes (snd (fetch_handler demo_runtime empty_cache article_request start)) =
       [KvPut (ustr ''meta:abc123'') (ustr ''{"name":"Win","avatarLink":"http://x/img.png"}'') 86400]
   \<and> fst (fetch_handler demo_runtime (with_put (\<lambda>k v ttl. Inl KVError) empty_cache) article_request start) =
       fst (fetch_handler demo_runtime empty_cache article_request start)\<close>
proof -
  have k: "ustr ''meta:'' @ ustr ''abc123'' = ustr ''meta:abc123''"
    by (simp add: ustr_def)
  have w: "cache_writes start = []"
    by (simp add: cache_writes_def start_def)
  have n: "\<not> js_not (Str (ustr ''Win''))"
    by (simp add: js_not_def ustr_def)
  show ?thesis
    using cache_write_back [OF facebook_crawls(1) article_identified, of empty_cache start
        "\<lambda>k v ttl. Inl KVError"]
      facebook_crawls(1) article_identified
    by (simp add: empty_cache_missed demo_resolve demo_stringify name_meta k w n)
qed



end
